theory Spec2Isabelle
  imports Main
begin

section \<open>The holder: \<^verbatim>\<open>struct World\<close>\<close>

text \<open>
  The source is one C++ translation unit, \<^verbatim>\<open>python_module.cpp\<close>:
  \<^verbatim>\<open>
  struct World
  {
      void set(std::string msg) { this->msg = msg; }
      std::string greet() { return msg; }
      std::string version() { return std::to_string(PY_MAJOR_VERSION) + "." + std::to_string(PY_MINOR_VERSION); }
      std::string msg;
  };
  \<close>
  A \<^verbatim>\<open>std::string\<close> is a sequence of bytes, which is what \<^typ>\<open>string\<close> is
  (a list of 8-bit \<^typ>\<open>char\<close>): a multi-byte character is several elements.
  Copying a \<^verbatim>\<open>std::string\<close> allocates; the model takes every allocation to succeed, so
  the methods have no failing branch, as the source has none.
\<close>

record World =
  msg :: string

text \<open>
  The struct declares no constructor: the implicit default constructor
  default-constructs \<^verbatim>\<open>msg\<close>, and a default-constructed \<^verbatim>\<open>std::string\<close> is empty.
\<close>

definition World_ctor :: World where
  "World_ctor = \<lparr>msg = []\<rparr>"

text \<open>
  The three member functions. None is declared \<^verbatim>\<open>const\<close>, so each is modelled as
  taking the object and returning the object it leaves behind; \<^verbatim>\<open>set\<close> returns
  \<^verbatim>\<open>void\<close>, the other two return a string beside the object.
  (\<^verbatim>\<open>set\<close> is named \<open>set_World\<close> here, \<open>set\<close> being the set of a list in HOL.)
\<close>

definition set_World :: "string \<Rightarrow> World \<Rightarrow> World" where
  "set_World m w = w\<lparr>msg := m\<rparr>"

definition greet :: "World \<Rightarrow> string \<times> World" where
  "greet w = (msg w, w)"

subsection \<open>Build-time constants\<close>

text \<open>
  Three macros are supplied from outside the file: \<^verbatim>\<open>PY_MAJOR_VERSION\<close> and
  \<^verbatim>\<open>PY_MINOR_VERSION\<close> by the host runtime's header, \<^verbatim>\<open>MOD_NAME\<close> by the build's
  command line. They are parameters of the model. The two version macros expand to
  integer literals, so \<^verbatim>\<open>std::to_string\<close> is called on an integer.
\<close>

record build_config =
  PY_MAJOR_VERSION :: int
  PY_MINOR_VERSION :: int
  MOD_NAME :: string

subsection \<open>\<^verbatim>\<open>std::to_string\<close> on an integer\<close>

text \<open>
  The standard library's \<^verbatim>\<open>std::to_string(int)\<close> writes its argument as \<^verbatim>\<open>%d\<close> does:
  the decimal digits, most significant first, no leading zero, after a minus sign when
  the argument is negative.
\<close>

definition digit_char :: "nat \<Rightarrow> char" where
  "digit_char d = char_of (48 + d)"

function to_string_nat :: "nat \<Rightarrow> string" where
  "to_string_nat n =
     (if n < 10 then [digit_char n]
      else to_string_nat (n div 10) @ [digit_char (n mod 10)])"
  by pat_completeness auto
termination
  by (relation "measure (\<lambda>n. n)") auto

text \<open>The equation unfolds under its own \<open>else\<close>: it is applied by hand.\<close>

declare to_string_nat.simps [simp del]

definition to_string :: "int \<Rightarrow> string" where
  "to_string i =
     (if i < 0 then CHR ''-'' # to_string_nat (nat (- i)) else to_string_nat (nat i))"

definition version :: "build_config \<Rightarrow> World \<Rightarrow> string \<times> World" where
  "version cfg w =
     (to_string (PY_MAJOR_VERSION cfg) @ ''.'' @ to_string (PY_MINOR_VERSION cfg), w)"

subsection \<open>Reading a version string\<close>

text \<open>
  What the properties of \<open>version\<close> are measured against: the characters \<^verbatim>\<open>\d\<close>
  stands for (here the ten ASCII digits, the only ones \<open>to_string\<close> can produce), the
  number a digit string denotes, and a matcher for the pattern \<^verbatim>\<open>^\d+\.\d+$\<close>: a
  non-empty run of digits, a full stop, and a non-empty run of digits up to the end.
\<close>

definition is_digit :: "char \<Rightarrow> bool" where
  "is_digit c = (48 \<le> (of_char c :: nat) \<and> (of_char c :: nat) \<le> 57)"

definition digit_val :: "char \<Rightarrow> nat" where
  "digit_val c = of_char c - 48"

definition decimal_value :: "string \<Rightarrow> nat" where
  "decimal_value s = foldl (\<lambda>acc c. 10 * acc + digit_val c) 0 s"

definition matches_version_pattern :: "string \<Rightarrow> bool" where
  "matches_version_pattern s =
     (let a = takeWhile is_digit s; r = dropWhile is_digit s
      in a \<noteq> [] \<and>
         (case r of
            [] \<Rightarrow> False
          | c # b \<Rightarrow> c = CHR ''.'' \<and> b \<noteq> [] \<and> list_all is_digit b))"

section \<open>Holders in the host runtime's memory\<close>

text \<open>
  The host runtime constructs holders on demand and calls a method on one of them through
  its \<^verbatim>\<open>this\<close> pointer. The objects alive are a list, an object's address is its index,
  and a call assigns to the list at that index only (\<^verbatim>\<open>this->msg = msg\<close>). A call
  through an address that holds no object has no defined behaviour in C++; it is
  \<open>None\<close> here.
\<close>

type_synonym heap = "World list"

definition new_World :: "heap \<Rightarrow> nat \<times> heap" where
  "new_World h = (length h, h @ [World_ctor])"

definition set_at :: "nat \<Rightarrow> string \<Rightarrow> heap \<Rightarrow> heap option" where
  "set_at this m h =
     (if this < length h then Some (h[this := set_World m (h ! this)]) else None)"

definition greet_at :: "nat \<Rightarrow> heap \<Rightarrow> (string \<times> heap) option" where
  "greet_at this h =
     (if this < length h
      then (case greet (h ! this) of (r, w) \<Rightarrow> Some (r, h[this := w]))
      else None)"

definition version_at :: "build_config \<Rightarrow> nat \<Rightarrow> heap \<Rightarrow> (string \<times> heap) option" where
  "version_at cfg this h =
     (if this < length h
      then (case version cfg (h ! this) of (r, w) \<Rightarrow> Some (r, h[this := w]))
      else None)"

section \<open>Sequences of calls on one holder\<close>

datatype call = Set string | Greet | Version

fun exec :: "build_config \<Rightarrow> call \<Rightarrow> World \<Rightarrow> World" where
  "exec cfg (Set m) w = set_World m w"
| "exec cfg Greet w = snd (greet w)"
| "exec cfg Version w = snd (version cfg w)"

fun run :: "build_config \<Rightarrow> call list \<Rightarrow> World \<Rightarrow> World" where
  "run cfg [] w = w"
| "run cfg (c # cs) w = run cfg cs (exec cfg c w)"

text \<open>The arguments of the \<open>Set\<close> calls of a sequence, in the order of the calls.\<close>

fun set_args :: "call list \<Rightarrow> string list" where
  "set_args [] = []"
| "set_args (Set m # cs) = m # set_args cs"
| "set_args (Greet # cs) = set_args cs"
| "set_args (Version # cs) = set_args cs"

section \<open>The registration surface\<close>

text \<open>
  \<^verbatim>\<open>
  BOOST_PYTHON_MODULE(MOD_NAME)
  {
      using namespace boost::python;
      class_<World>("World")
          .def("greet", &World::greet)
          .def("set", &World::set)
          .def("version", &World::version)
      ;
  }
  \<close>
  A pointer to a member function of \<^verbatim>\<open>World\<close> has one of two types in this file:
  \<^verbatim>\<open>void (World::*)(std::string)\<close> or \<^verbatim>\<open>std::string (World::*)()\<close>.
  \<^verbatim>\<open>class_<World>(name)\<close> starts the description of an exposed type with that external
  name, and each \<^verbatim>\<open>.def(name, f)\<close> adds one binding to it, in the order written. The
  model records the bindings the source declares; what the binding library installs by
  itself in every class it exposes is not part of this file.
\<close>

datatype member_fn =
    Void_of_string "string \<Rightarrow> World \<Rightarrow> World"
  | String_of_unit "World \<Rightarrow> string \<times> World"

record py_class =
  class_name :: string
  bindings :: "(string \<times> member_fn) list"

record py_module =
  mod_name :: string
  classes :: "py_class list"

definition class_World :: "string \<Rightarrow> py_class" where
  "class_World n = \<lparr>class_name = n, bindings = []\<rparr>"

definition def :: "string \<Rightarrow> member_fn \<Rightarrow> py_class \<Rightarrow> py_class" where
  "def n f c = c\<lparr>bindings := bindings c @ [(n, f)]\<rparr>"

definition init_module :: "build_config \<Rightarrow> py_module" where
  "init_module cfg =
     \<lparr>mod_name = MOD_NAME cfg,
      classes =
        [def ''version'' (String_of_unit (version cfg))
           (def ''set'' (Void_of_string set_World)
              (def ''greet'' (String_of_unit greet)
                 (class_World ''World'')))]\<rparr>"

section \<open>Decimal digits\<close>

lemma of_char_digit_char: "d < 10 \<Longrightarrow> (of_char (digit_char d) :: nat) = 48 + d"
  by (simp add: digit_char_def)

lemma is_digit_digit_char: "d < 10 \<Longrightarrow> is_digit (digit_char d)"
  by (simp add: is_digit_def of_char_digit_char)

lemma digit_val_digit_char: "d < 10 \<Longrightarrow> digit_val (digit_char d) = d"
  by (simp add: digit_val_def of_char_digit_char)

lemma digit_char_zero_iff: "d < 10 \<Longrightarrow> digit_char d = CHR ''0'' \<longleftrightarrow> d = 0"
proof -
  assume d: "d < 10"
  have "digit_char d = CHR ''0'' \<longleftrightarrow> (of_char (digit_char d) :: nat) = of_char CHR ''0''"
    by (simp only: of_char_eq_iff)
  also have "\<dots> \<longleftrightarrow> d = 0"
    using d by (simp add: of_char_digit_char)
  finally show ?thesis .
qed

lemma full_stop_not_digit: "\<not> is_digit CHR ''.''"
  by (simp add: is_digit_def)

lemma minus_not_digit: "\<not> is_digit CHR ''-''"
  by (simp add: is_digit_def)

text \<open>
  \<open>to_string_nat\<close> writes a number the way it is read back: digits only, at least
  one, a leading zero for zero alone, and \<open>decimal_value\<close> recovers the number.
\<close>

lemma to_string_nat_digits: "list_all is_digit (to_string_nat n)"
  by (induction n rule: to_string_nat.induct)
     (subst to_string_nat.simps, simp add: is_digit_digit_char)

lemma to_string_nat_nonempty: "to_string_nat n \<noteq> []"
  by (subst to_string_nat.simps) simp

lemma decimal_value_snoc: "decimal_value (s @ [c]) = 10 * decimal_value s + digit_val c"
  by (simp add: decimal_value_def)

lemma decimal_value_to_string_nat: "decimal_value (to_string_nat n) = n"
proof (induction n rule: to_string_nat.induct)
  case (1 n)
  show ?case
  proof (cases "n < 10")
    case True
    then show ?thesis
      by (subst to_string_nat.simps) (simp add: decimal_value_def digit_val_digit_char)
  next
    case False
    with 1 have "decimal_value (to_string_nat (n div 10)) = n div 10" by simp
    with False show ?thesis
      by (subst to_string_nat.simps) (simp add: decimal_value_snoc digit_val_digit_char)
  qed
qed

lemma to_string_nat_leading_zero: "hd (to_string_nat n) = CHR ''0'' \<longleftrightarrow> n = 0"
proof (induction n rule: to_string_nat.induct)
  case (1 n)
  show ?case
  proof (cases "n < 10")
    case True
    then show ?thesis
      by (subst to_string_nat.simps) (simp add: digit_char_zero_iff)
  next
    case False
    with 1 have "hd (to_string_nat (n div 10)) = CHR ''0'' \<longleftrightarrow> n div 10 = 0" by simp
    with False show ?thesis
      by (subst to_string_nat.simps) (simp add: to_string_nat_nonempty)
  qed
qed

lemma to_string_nonneg: "0 \<le> i \<Longrightarrow> to_string i = to_string_nat (nat i)"
  by (simp add: to_string_def)

section \<open>The pattern matcher\<close>

text \<open>
  The matcher accepts exactly the strings the pattern describes: two non-empty runs of
  digits with one full stop between them.
\<close>

lemma matches_version_patternI:
  assumes "a \<noteq> []" "b \<noteq> []" "list_all is_digit a" "list_all is_digit b"
  shows "matches_version_pattern (a @ ''.'' @ b)"
proof -
  from assms(3) have all: "\<And>x. x \<in> set a \<Longrightarrow> is_digit x"
    by (simp add: list_all_iff)
  have t: "takeWhile is_digit (a @ ''.'' @ b) = a"
    using all by (simp add: full_stop_not_digit)
  have d: "dropWhile is_digit (a @ ''.'' @ b) = CHR ''.'' # b"
    using all by (simp add: full_stop_not_digit)
  show ?thesis
    unfolding matches_version_pattern_def Let_def t d
    using assms(1,2,4) by simp
qed

lemma matches_version_patternD:
  assumes m: "matches_version_pattern s"
  shows "\<exists>a b. s = a @ ''.'' @ b \<and> a \<noteq> [] \<and> b \<noteq> [] \<and>
           list_all is_digit a \<and> list_all is_digit b"
proof -
  define a where "a = takeWhile is_digit s"
  define r where "r = dropWhile is_digit s"
  have s: "s = a @ r" by (simp add: a_def r_def)
  from m obtain b where b: "a \<noteq> []" "r = CHR ''.'' # b" "b \<noteq> []" "list_all is_digit b"
    by (auto simp: matches_version_pattern_def Let_def a_def r_def split: list.splits)
  have "list_all is_digit a"
    unfolding a_def list_all_iff by (auto dest: set_takeWhileD)
  with s b show ?thesis by auto
qed

lemma version_matches_pattern:
  assumes "0 \<le> PY_MAJOR_VERSION cfg" "0 \<le> PY_MINOR_VERSION cfg"
  shows "matches_version_pattern (fst (version cfg w))"
proof -
  have eq: "fst (version cfg w) =
      to_string_nat (nat (PY_MAJOR_VERSION cfg)) @ ''.'' @
      to_string_nat (nat (PY_MINOR_VERSION cfg))"
    using assms by (simp add: version_def to_string_nonneg)
  show ?thesis
    unfolding eq
    by (intro matches_version_patternI to_string_nat_nonempty to_string_nat_digits)
qed

text \<open>
  The pattern has no place for a sign: a negative constant would be printed with one,
  and the result would not match.
\<close>

lemma version_negative_major_no_match:
  "PY_MAJOR_VERSION cfg < 0 \<Longrightarrow> \<not> matches_version_pattern (fst (version cfg w))"
  by (simp add: matches_version_pattern_def version_def to_string_def minus_not_digit)

section \<open>Sequences of calls\<close>

lemma run_set_args:
  "msg (run cfg cs w) = (if set_args cs = [] then msg w else last (set_args cs))"
proof (induction cs arbitrary: w)
  case Nil
  show ?case by simp
next
  case (Cons c cs)
  show ?case
    using Cons [of "exec cfg c w"]
    by (cases c) (simp_all add: set_World_def greet_def version_def)
qed

section \<open>Properties of the holder\<close>

text \<open>
  C1. For every text \<open>t\<close>, the empty one and multi-byte ones included (the third
  conjunct is the two bytes of a two-byte UTF-8 character), and every state of the
  holder, \<open>set(t)\<close> followed by \<open>greet()\<close> on the same holder returns exactly \<open>t\<close>;
  after \<open>set("a")\<close> and \<open>set("b")\<close>, \<open>greet()\<close> returns \<open>"b"\<close>: the last write wins.
\<close>

theorem greet_after_set:
  "fst (greet (set_World t w)) = t \<and>
   fst (greet (set_World [] w)) = [] \<and>
   fst (greet (set_World [char_of (195::nat), char_of (169::nat)] w)) =
     [char_of (195::nat), char_of (169::nat)] \<and>
   fst (greet (set_World ''b'' (set_World ''a'' w))) = ''b'' \<and>
   fst (greet (set_World t2 (set_World t1 w))) = t2"
  by (simp add: greet_def set_World_def)

text \<open>
  C2. \<open>greet()\<close> on a freshly constructed holder, before any \<open>set\<close>, returns the empty
  text: for the constructed object itself, and for a holder just constructed in any
  memory.
\<close>

theorem greet_fresh_is_empty:
  "fst (greet World_ctor) = [] \<and>
   (case new_World h of (a, h') \<Rightarrow> map_option fst (greet_at a h') = Some [])"
  by (simp add: greet_def World_ctor_def new_World_def greet_at_def)

text \<open>
  C3. For a fixed build configuration, \<open>version()\<close> returns the constant string
  \<open><major>.<minor>\<close> made of the two build-time integer version constants: the same
  on repeated calls, on distinct holders and whatever the holder's text. For version
  constants that are not negative, as the host runtime's are, the two parts are the
  decimal numerals of the constants and the string matches \<^verbatim>\<open>^\d+\.\d+$\<close>.
\<close>

theorem version_major_dot_minor:
  "fst (version cfg w) =
     to_string (PY_MAJOR_VERSION cfg) @ ''.'' @ to_string (PY_MINOR_VERSION cfg) \<and>
   fst (version cfg (snd (version cfg w))) = fst (version cfg w) \<and>
   fst (version cfg w') = fst (version cfg w) \<and>
   (0 \<le> PY_MAJOR_VERSION cfg \<and> 0 \<le> PY_MINOR_VERSION cfg \<longrightarrow>
      matches_version_pattern (fst (version cfg w)) \<and>
      int (decimal_value (to_string (PY_MAJOR_VERSION cfg))) = PY_MAJOR_VERSION cfg \<and>
      int (decimal_value (to_string (PY_MINOR_VERSION cfg))) = PY_MINOR_VERSION cfg)"
proof (intro conjI impI)
  show "fst (version cfg w) =
      to_string (PY_MAJOR_VERSION cfg) @ ''.'' @ to_string (PY_MINOR_VERSION cfg)"
    by (simp add: version_def)
  show "fst (version cfg (snd (version cfg w))) = fst (version cfg w)"
    by (simp add: version_def)
  show "fst (version cfg w') = fst (version cfg w)"
    by (simp add: version_def)
next
  assume "0 \<le> PY_MAJOR_VERSION cfg \<and> 0 \<le> PY_MINOR_VERSION cfg"
  then show "matches_version_pattern (fst (version cfg w))"
    by (simp add: version_matches_pattern)
next
  assume "0 \<le> PY_MAJOR_VERSION cfg \<and> 0 \<le> PY_MINOR_VERSION cfg"
  then show "int (decimal_value (to_string (PY_MAJOR_VERSION cfg))) = PY_MAJOR_VERSION cfg"
    by (simp add: to_string_nonneg decimal_value_to_string_nat)
next
  assume "0 \<le> PY_MAJOR_VERSION cfg \<and> 0 \<le> PY_MINOR_VERSION cfg"
  then show "int (decimal_value (to_string (PY_MINOR_VERSION cfg))) = PY_MINOR_VERSION cfg"
    by (simp add: to_string_nonneg decimal_value_to_string_nat)
qed

theorem version_major_dot_minor_witness:
  "(0::int) \<le> 3 \<and> (0::int) \<le> 12 \<and>
   fst (version \<lparr>PY_MAJOR_VERSION = 3, PY_MINOR_VERSION = 12, MOD_NAME = ''boost_py''\<rparr>
          \<lparr>msg = ''hello''\<rparr>) = ''3.12'' \<and>
   fst (version \<lparr>PY_MAJOR_VERSION = 3, PY_MINOR_VERSION = 12, MOD_NAME = ''boost_py''\<rparr>
          World_ctor) = ''3.12'' \<and>
   matches_version_pattern ''3.12'' \<and>
   decimal_value ''3'' = 3 \<and> decimal_value ''12'' = 12"
proof -
  let ?cfg = "\<lparr>PY_MAJOR_VERSION = 3, PY_MINOR_VERSION = 12, MOD_NAME = ''boost_py''\<rparr>"
  have ev: "fst (version ?cfg w) = ''3.12''" for w
    by (simp add: version_def to_string_def to_string_nat.simps digit_char_def char_of_eq_iff)
  have nn: "0 \<le> PY_MAJOR_VERSION ?cfg \<and> 0 \<le> PY_MINOR_VERSION ?cfg"
    by simp
  from version_major_dot_minor [of ?cfg "\<lparr>msg = ''hello''\<rparr>" World_ctor] nn
  have "matches_version_pattern (fst (version ?cfg \<lparr>msg = ''hello''\<rparr>))"
    by (rule_tac conjunct1 [OF mp [OF conjunct2 [OF conjunct2 [OF conjunct2]]]])
  then have "matches_version_pattern ''3.12''"
    by (simp only: ev)
  then show ?thesis
    by (simp add: ev decimal_value_def digit_val_def)
qed

text \<open>
  C4. \<open>greet()\<close> is read-only: for every state of the holder it leaves the text field,
  and so the whole holder, as it was, and it returns the current text. Called through
  the address of a live holder, it leaves the whole memory as it was.
\<close>

theorem greet_read_only:
  "snd (greet w) = w \<and> msg (snd (greet w)) = msg w \<and> fst (greet w) = msg w \<and>
   greet_at this h = (if this < length h then Some (msg (h ! this), h) else None)"
  by (simp add: greet_def greet_at_def)

text \<open>
  C5. \<open>set(message)\<close> is total over all texts: it accepts any text, the empty one
  included, replaces the holder's text by it and changes nothing else; called on a live
  holder it always returns, every other holder and the number of holders being what
  they were.
\<close>

theorem set_total_one_field:
  "set_World t w = w\<lparr>msg := t\<rparr> \<and>
   msg (set_World t w) = t \<and>
   msg (set_World [] w) = [] \<and>
   (this < length h \<longrightarrow>
      (\<exists>h'. set_at this t h = Some h' \<and> length h' = length h \<and> msg (h' ! this) = t \<and>
            (\<forall>b. b < length h \<and> b \<noteq> this \<longrightarrow> h' ! b = h ! b)))"
  by (simp add: set_at_def set_World_def)

theorem set_total_one_field_witness:
  "(1::nat) < length [\<lparr>msg = ''a''\<rparr>, \<lparr>msg = ''b''\<rparr>] \<and>
   set_at 1 [] [\<lparr>msg = ''a''\<rparr>, \<lparr>msg = ''b''\<rparr>] = Some [\<lparr>msg = ''a''\<rparr>, \<lparr>msg = []\<rparr>] \<and>
   set_at 0 ''hi'' [\<lparr>msg = ''a''\<rparr>, \<lparr>msg = ''b''\<rparr>] = Some [\<lparr>msg = ''hi''\<rparr>, \<lparr>msg = ''b''\<rparr>]"
  using set_total_one_field [of "[]" "\<lparr>msg = ''b''\<rparr>" 1 "[\<lparr>msg = ''a''\<rparr>, \<lparr>msg = ''b''\<rparr>]"]
  by (simp add: set_at_def set_World_def)

text \<open>
  C6. Holders are isolated: for two distinct live holders \<open>h1\<close> and \<open>h2\<close> and any text
  \<open>t\<close>, \<open>h1.set(t)\<close> leaves the state of \<open>h2\<close>, and what \<open>h2.greet()\<close> returns,
  unchanged; and after constructing two holders and calling \<open>set("x")\<close> on the first,
  \<open>greet()\<close> on the second returns the empty string.
\<close>

theorem holders_isolated:
  "(h1 \<noteq> h2 \<and> h1 < length h \<and> h2 < length h \<longrightarrow>
      (\<exists>h'. set_at h1 t h = Some h' \<and> h' ! h2 = h ! h2 \<and>
            map_option fst (greet_at h2 h') = map_option fst (greet_at h2 h))) \<and>
   (case new_World h0 of (a1, s1) \<Rightarrow>
      case new_World s1 of (a2, s2) \<Rightarrow>
        a1 \<noteq> a2 \<and>
        (case set_at a1 ''x'' s2 of
           None \<Rightarrow> False
         | Some s3 \<Rightarrow> map_option fst (greet_at a2 s3) = Some []))"
  by (simp add: new_World_def set_at_def greet_at_def greet_def World_ctor_def nth_append)

theorem holders_isolated_witness:
  "(0::nat) \<noteq> 1 \<and>
   set_at 0 ''x'' [\<lparr>msg = ''p''\<rparr>, \<lparr>msg = ''q''\<rparr>] = Some [\<lparr>msg = ''x''\<rparr>, \<lparr>msg = ''q''\<rparr>] \<and>
   map_option fst (greet_at 1 [\<lparr>msg = ''x''\<rparr>, \<lparr>msg = ''q''\<rparr>]) = Some ''q'' \<and>
   map_option fst (greet_at 1 [\<lparr>msg = ''p''\<rparr>, \<lparr>msg = ''q''\<rparr>]) = Some ''q''"
  using holders_isolated [of 0 1 "[\<lparr>msg = ''p''\<rparr>, \<lparr>msg = ''q''\<rparr>]" "''x''" "[]"]
  by (simp add: set_at_def set_World_def greet_at_def greet_def)

text \<open>
  C7. After any finite sequence of \<open>set\<close>, \<open>greet\<close> and \<open>version\<close> calls on a holder,
  its text is the argument of the most recent \<open>set\<close> of the sequence, or the empty text
  (for a holder that starts in another state: the text it started with) if the sequence
  has no \<open>set\<close>.
\<close>

theorem text_is_last_set:
  "msg (run cfg cs World_ctor) = (if set_args cs = [] then [] else last (set_args cs)) \<and>
   msg (run cfg cs w) = (if set_args cs = [] then msg w else last (set_args cs))"
  by (simp add: run_set_args World_ctor_def)

text \<open>
  C8. The registration declares, under the build-time module name, exactly one exposed
  type, externally named \<open>World\<close>, whose table of operations binds the three names
  \<open>greet\<close>, \<open>set\<close> and \<open>version\<close> to the holder's \<open>greet\<close>, \<open>set\<close> and \<open>version\<close>
  member functions, in that order, and no other name.
\<close>

theorem registration_surface:
  "mod_name (init_module cfg) = MOD_NAME cfg \<and>
   map class_name (classes (init_module cfg)) = [''World''] \<and>
   map bindings (classes (init_module cfg)) =
     [[(''greet'', String_of_unit greet),
       (''set'', Void_of_string set_World),
       (''version'', String_of_unit (version cfg))]] \<and>
   map (\<lambda>c. map_of (bindings c) n) (classes (init_module cfg)) =
     [if n = ''greet'' then Some (String_of_unit greet)
      else if n = ''set'' then Some (Void_of_string set_World)
      else if n = ''version'' then Some (String_of_unit (version cfg))
      else None]"
  by (simp add: init_module_def def_def class_World_def)

text \<open>
  C9. For every state of the holder, \<open>set(greet())\<close>, that is setting the text to what
  \<open>greet\<close> returns just now, leaves the holder's state unchanged.
\<close>

theorem set_of_greet_is_identity:
  "set_World (fst (greet w)) (snd (greet w)) = w"
  by (simp add: greet_def set_World_def)

text \<open>
  A second \<open>set\<close> overwrites the first: nothing of the earlier text is kept, and
  setting the same text twice is setting it once.
\<close>

theorem set_overwrites:
  "set_World t2 (set_World t1 w) = set_World t2 w \<and>
   set_World t (set_World t w) = set_World t w"
  by (simp add: set_World_def)

text \<open>
  C10. \<open>version()\<close> neither reads nor writes the text field: for every state of the
  holder it leaves the holder unchanged, and what it returns is the same for every state
  of the holder. Called through the address of a live holder, it leaves the whole memory
  as it was and returns what it returns on a fresh holder.
\<close>

theorem version_ignores_text:
  "snd (version cfg w) = w \<and>
   msg (snd (version cfg w)) = msg w \<and>
   fst (version cfg w) = fst (version cfg w') \<and>
   fst (version cfg (set_World t w)) = fst (version cfg w) \<and>
   version_at cfg this h =
     (if this < length h then Some (fst (version cfg World_ctor), h) else None)"
  by (simp add: version_def version_at_def)

end
